theory Spec2Isabelle
  imports Complex_Main
begin

section \<open>The OpenStack load-balancer task (openstacktasks/lb.go)\<close>

text \<open>
  A shallow embedding of the reconciliation unit for one load balancer: its descriptor
  (\<open>LB\<close>), discovery (\<open>Find\<close>, \<open>NewLBTaskFromCloud\<close>), change validation
  (\<open>CheckChanges\<close>), convergence (\<open>RenderOpenstack\<close>) and the provisioning-status
  poller (\<open>waitLoadbalancerActiveProvisioningStatus\<close>).

  Go pointers are options: \<open>*string\<close> is \<open>string option\<close>, \<open>*LB\<close> is \<open>LB option\<close>,
  and \<open>nil\<close> is \<open>None\<close>. A method that writes through a pointer returns the pointee as
  it is after the call. Dereferencing a nil \<open>*LB\<close> is the error \<open>NilDereference\<close>.
\<close>

subsection \<open>Data\<close>

type_synonym Lifecycle = string

text \<open>
  Modelled from the spec: the type declaration of the security-group task lives in a
  sibling file of the package. Only its two identity fields are read here: the remote
  identifier and the name used as lookup key.
\<close>

record SecurityGroup =
  SG_ID :: "string option"
  SG_Name :: "string option"

record LB =
  ID :: "string option"
  Name :: "string option"
  Subnet :: "string option"
  VipSubnet :: "string option"
  Lifecycle :: Lifecycle
  PortID :: "string option"
  SecurityGroup :: "SecurityGroup option"
  Provider :: "string option"
  FlavorID :: "string option"

text \<open>The records of the provider SDK, with the fields this file reads or writes.\<close>

record LoadBalancer =
  lb_ID :: string
  lb_Name :: string
  lb_VipPortID :: string
  lb_VipSubnetID :: string
  lb_Provider :: string
  lb_FlavorID :: string
  lb_ProvisioningStatus :: string

record SubnetRec =
  subnet_ID :: string
  subnet_Name :: string

record Port =
  port_SecurityGroups :: "string list"

record CreateOpts =
  opts_Name :: string
  opts_VipSubnetID :: string
  opts_FlavorID :: string

text \<open>
  Error values. \<open>RemoteError m\<close> is an error value handed back by the provider client,
  with message \<open>m\<close>; \<open>Errorf m\<close> is a fresh error value built by \<open>fmt.Errorf\<close> in this
  file; \<open>ErrWaitTimeout\<close> is the sentinel of the wait package; \<open>RequiredField\<close> and
  \<open>CannotChangeField\<close> are the validation errors of the task framework.
\<close>

datatype error =
    RemoteError string
  | Errorf string
  | ErrWaitTimeout
  | RequiredField string
  | CannotChangeField string
  | NilDereference

text \<open>\<open>fi.ValueOf\<close>: the pointee, or the zero value of the type for a nil pointer.\<close>

definition ValueOf :: "string option \<Rightarrow> string" where
  "ValueOf p = (case p of None \<Rightarrow> [] | Some v \<Rightarrow> v)"

definition PtrTo :: "'a \<Rightarrow> 'a option" where
  "PtrTo v = Some v"

subsection \<open>Change validation\<close>

definition CheckChanges :: "LB option \<Rightarrow> LB option \<Rightarrow> LB option \<Rightarrow> error option" where
  "CheckChanges a e changes =
     (case a of
        None \<Rightarrow>
          (case e of
             None \<Rightarrow> Some NilDereference
           | Some ev \<Rightarrow> if Name ev = None then Some (RequiredField ''Name'') else None)
      | Some av \<Rightarrow>
          (case changes of
             None \<Rightarrow> Some NilDereference
           | Some cv \<Rightarrow>
               if ID cv \<noteq> None then Some (CannotChangeField ''ID'')
               else if Name cv \<noteq> None then Some (CannotChangeField ''Name'')
               else None))"

fun is_RequiredField :: "error option \<Rightarrow> bool" where
  "is_RequiredField (Some (RequiredField f)) = True"
| "is_RequiredField _ = False"

fun is_CannotChangeField :: "error option \<Rightarrow> bool" where
  "is_CannotChangeField (Some (CannotChangeField f)) = True"
| "is_CannotChangeField _ = False"

subsection \<open>The provider boundary\<close>

text \<open>
  Every request sent to the provider is recorded, in order. The provider is a record
  of response functions; each takes the requests made so far, so that an answer may
  depend on everything that was sent before. A failing request answers \<open>Inl m\<close>, the
  message of the error value the client returns.
\<close>

datatype call =
    LoadBalancersListCall string
  | LoadBalancersGetCall string
  | SubnetsGetCall string
  | GetSecurityGroupByNameCall "string option"
  | ListSubnetsCall string
  | CreateLBCall CreateOpts
  | GetPortCall string
  | PortsUpdateCall string "string list"

text \<open>A page of a listing is what its extraction yields: an error or the entries.\<close>

type_synonym LoadBalancerPage = "string + LoadBalancer list"

text \<open>
  \<open>getSecurityGroupByName\<close> is a function of the package defined in a sibling file; it is
  a parameter here, answering an error, no group, or the group found.
\<close>

record OpenstackCloud =
  loadbalancers_List :: "call list \<Rightarrow> string \<Rightarrow> string + LoadBalancerPage"
  loadbalancers_Get :: "call list \<Rightarrow> string \<Rightarrow> string + LoadBalancer"
  subnets_Get :: "call list \<Rightarrow> string \<Rightarrow> string + SubnetRec"
  getSecurityGroupByName :: "call list \<Rightarrow> SecurityGroup \<Rightarrow> error + SecurityGroup option"
  ListSubnets :: "call list \<Rightarrow> string \<Rightarrow> string + SubnetRec list"
  CreateLB :: "call list \<Rightarrow> CreateOpts \<Rightarrow> string + LoadBalancer"
  GetPort :: "call list \<Rightarrow> string \<Rightarrow> string + Port"
  ports_Update :: "call list \<Rightarrow> string \<Rightarrow> string list \<Rightarrow> string option"

definition ExtractLoadBalancers :: "LoadBalancerPage \<Rightarrow> string + LoadBalancer list" where
  "ExtractLoadBalancers page = page"

fun is_mutation :: "call \<Rightarrow> bool" where
  "is_mutation (CreateLBCall opts) = True"
| "is_mutation (PortsUpdateCall p sgs) = True"
| "is_mutation _ = False"

text \<open>The verb \<open>%d\<close> of \<open>fmt\<close> on a length: its decimal digits.\<close>

fun Sprint_d :: "nat \<Rightarrow> string" where
  "Sprint_d n =
     (if n < 10 then [''0123456789'' ! n]
      else Sprint_d (n div 10) @ [''0123456789'' ! (n mod 10)])"

declare Sprint_d.simps [simp del]

subsection \<open>Discovery\<close>

definition NewLBTaskFromCloud ::
  "OpenstackCloud \<Rightarrow> call list \<Rightarrow> Lifecycle \<Rightarrow> LoadBalancer \<Rightarrow> LB option
     \<Rightarrow> (error + LB) \<times> LB option \<times> call list" where
  "NewLBTaskFromCloud cloud reqs lifecycle lb find_lb =
     (let reqs1 = reqs @ [SubnetsGetCall (lb_VipSubnetID lb)] in
      (case subnets_Get cloud reqs (lb_VipSubnetID lb) of
         Inl err \<Rightarrow> (Inl (RemoteError err), find_lb, reqs1)
       | Inr sub \<Rightarrow>
          (let secGroup = (case find_lb of
                             None \<Rightarrow> True
                           | Some f \<Rightarrow> (if SecurityGroup f = None then False else True));
               actual = \<lparr>ID = PtrTo (lb_ID lb),
                         Name = PtrTo (lb_Name lb),
                         Subnet = PtrTo (subnet_Name sub),
                         VipSubnet = PtrTo (lb_VipSubnetID lb),
                         Lifecycle = lifecycle,
                         PortID = PtrTo (lb_VipPortID lb),
                         SecurityGroup = None,
                         Provider = PtrTo (lb_Provider lb),
                         FlavorID = PtrTo (lb_FlavorID lb)\<rparr>;
               (r, reqs2) =
                 (if secGroup then
                    ((case getSecurityGroupByName cloud reqs1
                             \<lparr>SG_ID = None, SG_Name = PtrTo (lb_Name lb)\<rparr> of
                        Inl err \<Rightarrow> Inl err
                      | Inr sg \<Rightarrow> Inr (actual\<lparr>SecurityGroup := sg\<rparr>)),
                     reqs1 @ [GetSecurityGroupByNameCall (PtrTo (lb_Name lb))])
                  else (Inr actual, reqs1))
           in (case r of
                 Inl err \<Rightarrow> (Inl err, find_lb, reqs2)
               | Inr actual \<Rightarrow>
                   (Inr actual,
                    (case find_lb of
                       None \<Rightarrow> None
                     | Some f \<Rightarrow> Some (f\<lparr>ID := ID actual,
                                         PortID := PortID actual,
                                         VipSubnet := VipSubnet actual,
                                         Provider := Provider actual,
                                         FlavorID := FlavorID actual\<rparr>)),
                    reqs2)))))"

definition Find ::
  "OpenstackCloud \<Rightarrow> call list \<Rightarrow> LB option \<Rightarrow> (error + LB option) \<times> LB option \<times> call list" where
  "Find cloud reqs s =
     (case s of
        None \<Rightarrow> (Inl NilDereference, s, reqs)
      | Some sv \<Rightarrow>
          (if Name sv = None then (Inr None, s, reqs)
           else
             (let reqs1 = reqs @ [LoadBalancersListCall (ValueOf (Name sv))] in
              (case loadbalancers_List cloud reqs (ValueOf (Name sv)) of
                 Inl err \<Rightarrow>
                   (Inl (Errorf (''Failed to retrieve loadbalancers for name ''
                                   @ ValueOf (Name sv) @ '': '' @ err)), s, reqs1)
               | Inr lbPage \<Rightarrow>
                   (case ExtractLoadBalancers lbPage of
                      Inl err \<Rightarrow>
                        (Inl (Errorf (''Failed to extract loadbalancers : '' @ err)), s, reqs1)
                    | Inr lbs \<Rightarrow>
                        (if length lbs = 0 then (Inr None, s, reqs1)
                         else if length lbs > 1 then
                           (Inl (Errorf (''Multiple load balancers for name ''
                                           @ ValueOf (Name sv))), s, reqs1)
                         else
                           (case NewLBTaskFromCloud cloud reqs1 (Lifecycle sv) (lbs ! 0) s of
                              (Inl err, s', reqs2) \<Rightarrow> (Inl err, s', reqs2)
                            | (Inr actual, s', reqs2) \<Rightarrow> (Inr (Some actual), s', reqs2))))))))"

subsection \<open>Convergence\<close>

definition RenderOpenstack ::
  "OpenstackCloud \<Rightarrow> call list \<Rightarrow> LB option \<Rightarrow> LB option \<Rightarrow> LB option
     \<Rightarrow> error option \<times> LB option \<times> call list" where
  "RenderOpenstack cloud reqs a e changes =
     (case a of
        None \<Rightarrow>
          (case e of
             None \<Rightarrow> (Some NilDereference, e, reqs)
           | Some ev \<Rightarrow>
              (let reqs1 = reqs @ [ListSubnetsCall (ValueOf (Subnet ev))] in
               (case ListSubnets cloud reqs (ValueOf (Subnet ev)) of
                  Inl err \<Rightarrow>
                    (Some (Errorf (''Failed to retrieve subnet `'' @ ValueOf (Subnet ev)
                                     @ ''` in loadbalancer creation: '' @ err)), e, reqs1)
                | Inr subnets \<Rightarrow>
                   (if length subnets \<noteq> 1 then
                      (Some (Errorf (''Unexpected desired subnets for `'' @ ValueOf (Subnet ev)
                                       @ ''`.  Expected 1, got '' @ Sprint_d (length subnets))),
                       e, reqs1)
                    else
                      (let lbopts0 = \<lparr>opts_Name = ValueOf (Name ev),
                                      opts_VipSubnetID = subnet_ID (subnets ! 0),
                                      opts_FlavorID = []\<rparr>;
                           lbopts = (if FlavorID ev \<noteq> None
                                     then lbopts0\<lparr>opts_FlavorID := ValueOf (FlavorID ev)\<rparr>
                                     else lbopts0);
                           reqs2 = reqs1 @ [CreateLBCall lbopts]
                       in (case CreateLB cloud reqs1 lbopts of
                             Inl err \<Rightarrow>
                               (Some (Errorf (''error creating LB: '' @ err)), e, reqs2)
                           | Inr lb \<Rightarrow>
                              (let ev' = ev\<lparr>ID := PtrTo (lb_ID lb),
                                            PortID := PtrTo (lb_VipPortID lb),
                                            VipSubnet := PtrTo (lb_VipSubnetID lb),
                                            Provider := PtrTo (lb_Provider lb),
                                            FlavorID := PtrTo (lb_FlavorID lb)\<rparr>
                               in (case SecurityGroup ev' of
                                     None \<Rightarrow> (None, Some ev', reqs2)
                                   | Some sg \<Rightarrow>
                                      (let sgs = [ValueOf (SG_ID sg)];
                                           reqs3 = reqs2 @ [PortsUpdateCall (lb_VipPortID lb) sgs]
                                       in (case ports_Update cloud reqs2 (lb_VipPortID lb) sgs of
                                             Some err \<Rightarrow>
                                               (Some (Errorf
                                                  (''Failed to update security group for port ''
                                                     @ lb_VipPortID lb @ '': '' @ err)),
                                                Some ev', reqs3)
                                           | None \<Rightarrow> (None, Some ev', reqs3)))))))))))
      | Some av \<Rightarrow>
         (let reqs1 = reqs @ [GetPortCall (ValueOf (PortID av))] in
          (case GetPort cloud reqs (ValueOf (PortID av)) of
             Inl err \<Rightarrow>
               (Some (Errorf (''Failed to get port with id '' @ ValueOf (PortID av)
                                @ '': '' @ err)), e, reqs1)
           | Inr port \<Rightarrow>
               (case e of
                  None \<Rightarrow> (Some NilDereference, e, reqs1)
                | Some ev \<Rightarrow>
                    (case SecurityGroup ev of
                       None \<Rightarrow> (None, e, reqs1)
                     | Some sg \<Rightarrow>
                        (if length (port_SecurityGroups port) < 1
                            \<or> port_SecurityGroups port ! 0 \<noteq> ValueOf (SG_ID sg)
                         then
                           (let sgs = [ValueOf (SG_ID sg)];
                                reqs2 = reqs1 @ [PortsUpdateCall (ValueOf (PortID av)) sgs]
                            in (case ports_Update cloud reqs1 (ValueOf (PortID av)) sgs of
                                  Some err \<Rightarrow>
                                    (Some (Errorf
                                       (''Failed to update security group for port ''
                                          @ ValueOf (PortID av) @ '': '' @ err)),
                                     e, reqs2)
                                | None \<Rightarrow> (None, e, reqs2)))
                         else (None, e, reqs1)))))))"

subsection \<open>The provisioning-status poller\<close>

text \<open>Durations are integers, in nanoseconds, as \<open>time.Duration\<close> is.\<close>

definition Second :: int where
  "Second = 1000000000"

definition loadbalancerActiveInitDelay :: int where
  "loadbalancerActiveInitDelay = 1 * Second"

definition loadbalancerActiveFactor :: rat where
  "loadbalancerActiveFactor = 12 / 10"

definition loadbalancerActiveSteps :: int where
  "loadbalancerActiveSteps = 22"

definition activeStatus :: string where
  "activeStatus = ''ACTIVE''"

definition errorStatus :: string where
  "errorStatus = ''ERROR''"

text \<open>
  Modelled from the spec: the retry loop \<open>wait.ExponentialBackoff\<close> and its \<open>Backoff\<close>
  schedule belong to a library that is not part of the sources. The spec gives an
  initial delay, a multiplicative factor per step and a maximum step count: each attempt
  runs the condition; an error or a true answer ends the loop with that error; otherwise
  the loop sleeps for the current delay, multiplies the delay by the factor and goes on
  to the next step; when the steps are used up the result is the timeout sentinel. The
  loop sleeps between attempts only, so the last attempt is not followed by a sleep. The
  product of a delay and the factor is truncated to whole nanoseconds; the rounding of
  the floating-point product is not modelled. The delays slept are collected in a list.
\<close>

record Backoff =
  Duration :: int
  Factor :: rat
  Steps :: int

definition Step :: "Backoff \<Rightarrow> int \<times> Backoff" where
  "Step b =
     (Duration b,
      b\<lparr>Steps := Steps b - 1, Duration := \<lfloor>of_int (Duration b) * Factor b\<rfloor>\<rparr>)"

function ExponentialBackoff ::
  "Backoff \<Rightarrow> ('s \<Rightarrow> (bool \<times> error option) \<times> 's) \<Rightarrow> 's \<Rightarrow> int list
     \<Rightarrow> error option \<times> 's \<times> int list" where
  "ExponentialBackoff backoff condition s slept =
     (if Steps backoff > 0 then
        (case condition s of
           ((ok, err), s') \<Rightarrow>
             (if err \<noteq> None \<or> ok then (err, s', slept)
              else if Steps backoff = 1 then (Some ErrWaitTimeout, s', slept)
              else ExponentialBackoff (snd (Step backoff)) condition s'
                     (slept @ [fst (Step backoff)])))
      else (Some ErrWaitTimeout, s, slept))"
  by pat_completeness auto
termination
  by (relation "measure (\<lambda>(backoff, condition, s, slept). nat (Steps backoff))")
     (auto simp: Step_def)

declare ExponentialBackoff.simps [simp del]

text \<open>
  The condition of the poller: one status fetch. Its state is the captured variable
  \<open>provisioningStatus\<close> and the requests made so far.
\<close>

definition pollCondition ::
  "OpenstackCloud \<Rightarrow> string \<Rightarrow> string \<times> call list
     \<Rightarrow> (bool \<times> error option) \<times> (string \<times> call list)" where
  "pollCondition cloud loadbalancerID st =
     (case st of
        (provisioningStatus, reqs) \<Rightarrow>
          (let reqs1 = reqs @ [LoadBalancersGetCall loadbalancerID] in
           (case loadbalancers_Get cloud reqs loadbalancerID of
              Inl err \<Rightarrow> ((False, Some (RemoteError err)), (provisioningStatus, reqs1))
            | Inr loadbalancer \<Rightarrow>
                (if lb_ProvisioningStatus loadbalancer = activeStatus then
                   ((True, None), (lb_ProvisioningStatus loadbalancer, reqs1))
                 else if lb_ProvisioningStatus loadbalancer = errorStatus then
                   ((True, Some (Errorf ''loadbalancer has gone into ERROR state'')),
                    (lb_ProvisioningStatus loadbalancer, reqs1))
                 else ((False, None), (lb_ProvisioningStatus loadbalancer, reqs1))))))"

definition waitLoadbalancerActiveProvisioningStatus ::
  "OpenstackCloud \<Rightarrow> call list \<Rightarrow> string \<Rightarrow> (string \<times> error option) \<times> call list \<times> int list" where
  "waitLoadbalancerActiveProvisioningStatus cloud reqs loadbalancerID =
     (let backoff = \<lparr>Duration = loadbalancerActiveInitDelay,
                      Factor = loadbalancerActiveFactor,
                      Steps = loadbalancerActiveSteps\<rparr>
      in (case ExponentialBackoff backoff (pollCondition cloud loadbalancerID) ([], reqs) [] of
            (err, (provisioningStatus, reqs'), slept) \<Rightarrow>
              (let err' = (if err = Some ErrWaitTimeout then
                             Some (Errorf ''loadbalancer failed to go into ACTIVE provisioning status within allotted time'')
                           else err)
               in ((provisioningStatus, err'), reqs', slept))))"

subsection \<open>Notions used to state the properties\<close>

text \<open>The schedule the poller starts from.\<close>

definition pollerBackoff :: Backoff where
  "pollerBackoff = \<lparr>Duration = loadbalancerActiveInitDelay,
                      Factor = loadbalancerActiveFactor,
                      Steps = loadbalancerActiveSteps\<rparr>"

text \<open>The first \<open>k\<close> delays of a schedule, and the schedule after \<open>k\<close> steps.\<close>

fun delays :: "nat \<Rightarrow> Backoff \<Rightarrow> int list" where
  "delays 0 b = []"
| "delays (Suc k) b = fst (Step b) # delays k (snd (Step b))"

fun advance :: "nat \<Rightarrow> Backoff \<Rightarrow> Backoff" where
  "advance 0 b = b"
| "advance (Suc k) b = advance k (snd (Step b))"

text \<open>
  The answer to the status fetch number \<open>k\<close> (counted from 0) of a poller that started
  after the requests \<open>reqs\<close>: the \<open>k\<close> fetches before it are part of the history.
\<close>

definition fetchOutcome ::
  "OpenstackCloud \<Rightarrow> call list \<Rightarrow> string \<Rightarrow> nat \<Rightarrow> string + LoadBalancer" where
  "fetchOutcome cloud reqs loadbalancerID k =
     loadbalancers_Get cloud (reqs @ replicate k (LoadBalancersGetCall loadbalancerID))
       loadbalancerID"

text \<open>A fetch that succeeded with a status that is neither of the two terminal ones.\<close>

definition inProgress :: "string + LoadBalancer \<Rightarrow> bool" where
  "inProgress outcome =
     (case outcome of
        Inl err \<Rightarrow> False
      | Inr loadbalancer \<Rightarrow>
          lb_ProvisioningStatus loadbalancer \<noteq> activeStatus
          \<and> lb_ProvisioningStatus loadbalancer \<noteq> errorStatus)"

text \<open>The requests a call added to the history it started from.\<close>

definition issued :: "call list \<Rightarrow> call list \<Rightarrow> call list" where
  "issued reqs reqs' = drop (length reqs) reqs'"

subsection \<open>A small provider state for concrete runs\<close>

definition demoGroup :: SecurityGroup where
  "demoGroup = \<lparr>SG_ID = Some ''sg-1'', SG_Name = Some ''api.k8s.local''\<rparr>"

definition demoDesired :: LB where
  "demoDesired = \<lparr>ID = None, Name = Some ''api.k8s.local'', Subnet = Some ''net-a'',
                   VipSubnet = None, Lifecycle = ''Sync'', PortID = None,
                   SecurityGroup = Some demoGroup, Provider = None, FlavorID = None\<rparr>"

definition demoActual :: LB where
  "demoActual = \<lparr>ID = Some ''lb-1'', Name = Some ''api.k8s.local'', Subnet = Some ''net-a'',
                  VipSubnet = Some ''sub-1'', Lifecycle = ''Sync'', PortID = Some ''port-1'',
                  SecurityGroup = Some demoGroup, Provider = Some ''octavia'',
                  FlavorID = Some ''small''\<rparr>"

definition demoRemote :: LoadBalancer where
  "demoRemote = \<lparr>lb_ID = ''lb-1'', lb_Name = ''api.k8s.local'', lb_VipPortID = ''port-1'',
                  lb_VipSubnetID = ''sub-1'', lb_Provider = ''octavia'',
                  lb_FlavorID = ''small'', lb_ProvisioningStatus = ''ACTIVE''\<rparr>"

definition demoSubnet :: SubnetRec where
  "demoSubnet = \<lparr>subnet_ID = ''sub-1'', subnet_Name = ''net-a''\<rparr>"

text \<open>
  A provider with one load balancer, one subnet and one security group, whose port
  carries the security groups \<open>sgs\<close>, and where every request succeeds.
\<close>

definition demoCloud :: "string list \<Rightarrow> OpenstackCloud" where
  "demoCloud sgs =
     \<lparr>loadbalancers_List = (\<lambda>reqs n. Inr (Inr [demoRemote])),
      loadbalancers_Get = (\<lambda>reqs i. Inr demoRemote),
      subnets_Get = (\<lambda>reqs i. Inr demoSubnet),
      getSecurityGroupByName = (\<lambda>reqs g. Inr (Some demoGroup)),
      ListSubnets = (\<lambda>reqs n. Inr [demoSubnet]),
      CreateLB = (\<lambda>reqs opts. Inr demoRemote),
      GetPort = (\<lambda>reqs i. Inr \<lparr>port_SecurityGroups = sgs\<rparr>),
      ports_Update = (\<lambda>reqs i g. None)\<rparr>"

text \<open>
  A status fetch that answers the statuses of a list in turn, one per fetch made so far,
  and fails once the list is used up.
\<close>

definition statusFeed :: "string list \<Rightarrow> call list \<Rightarrow> string \<Rightarrow> string + LoadBalancer" where
  "statusFeed statuses reqs i =
     (if length reqs < length statuses
      then Inr (demoRemote\<lparr>lb_ProvisioningStatus := statuses ! length reqs\<rparr>)
      else Inl ''connection reset'')"

section \<open>Properties\<close>

subsection \<open>Change validation\<close>

text \<open>
  Claim C3. When the actual descriptor is absent, validation answers a required-field
  error exactly when the desired name is unset, and no error otherwise. When the actual
  descriptor is present, it answers an immutable-field error exactly when the delta
  carries an identifier or a name, whatever the other fields of the delta are, and no
  error otherwise.
\<close>
theorem CheckChanges_contract:
  "(is_RequiredField (CheckChanges None (Some e) changes) \<longleftrightarrow> Name e = None)
   \<and> (Name e \<noteq> None \<longrightarrow> CheckChanges None (Some e) changes = None)
   \<and> \<not> is_CannotChangeField (CheckChanges None (Some e) changes)
   \<and> (is_CannotChangeField (CheckChanges (Some a) d (Some c)) \<longleftrightarrow> ID c \<noteq> None \<or> Name c \<noteq> None)
   \<and> (ID c = None \<and> Name c = None \<longrightarrow> CheckChanges (Some a) d (Some c) = None)
   \<and> \<not> is_RequiredField (CheckChanges (Some a) d (Some c))"
  by (simp add: CheckChanges_def)

theorem CheckChanges_contract_witness:
  "is_RequiredField (CheckChanges None (Some (demoDesired\<lparr>Name := None\<rparr>)) None)
   \<and> CheckChanges None (Some demoDesired) None = None
   \<and> is_CannotChangeField (CheckChanges (Some demoActual) (Some demoDesired)
        (Some (demoDesired\<lparr>Name := None, ID := Some ''lb-2''\<rparr>)))
   \<and> CheckChanges (Some demoActual) (Some demoDesired) (Some (demoDesired\<lparr>Name := None\<rparr>)) = None"
  using CheckChanges_contract [where e = "demoDesired\<lparr>Name := None\<rparr>" and changes = None
          and c = "demoDesired\<lparr>Name := None, ID := Some ''lb-2''\<rparr>" and a = demoActual
          and d = "Some demoDesired"]
        CheckChanges_contract [where e = demoDesired and changes = None
          and c = "demoDesired\<lparr>Name := None\<rparr>" and a = demoActual and d = "Some demoDesired"]
  by (simp add: demoDesired_def)

subsection \<open>Discovery\<close>

text \<open>
  Claim C8. Discovery on a descriptor whose name is unset answers "absent" without an
  error, sends no request and leaves the descriptor as it is.
\<close>
theorem Find_unset_name:
  "Name s = None \<Longrightarrow> Find cloud reqs (Some s) = (Inr None, Some s, reqs)"
  by (simp add: Find_def)

theorem Find_unset_name_witness:
  "Name (demoDesired\<lparr>Name := None\<rparr>) = None
   \<and> Find (demoCloud []) [] (Some (demoDesired\<lparr>Name := None\<rparr>))
       = (Inr None, Some (demoDesired\<lparr>Name := None\<rparr>), [])"
  using Find_unset_name [of "demoDesired\<lparr>Name := None\<rparr>" "demoCloud []" "[]"]
  by simp

text \<open>
  Claim C4. For a descriptor with a name, when the listing for that name has no entry,
  discovery answers "absent" without an error; when it has more than one entry, discovery
  fails with an error naming the name. In both cases the listing is the only request
  sent: no descriptor is reconstructed.
\<close>
theorem Find_match_count:
  assumes "Name s = Some n" and "loadbalancers_List cloud reqs n = Inr (Inr lbs)"
  shows "(lbs = [] \<longrightarrow>
            Find cloud reqs (Some s) = (Inr None, Some s, reqs @ [LoadBalancersListCall n]))
       \<and> (1 < length lbs \<longrightarrow>
            Find cloud reqs (Some s) =
              (Inl (Errorf (''Multiple load balancers for name '' @ n)), Some s,
               reqs @ [LoadBalancersListCall n]))"
  using assms by (auto simp: Find_def ValueOf_def ExtractLoadBalancers_def Let_def)

theorem Find_match_count_witness:
  "Find (demoCloud []\<lparr>loadbalancers_List := \<lambda>reqs n. Inr (Inr [])\<rparr>) [] (Some demoDesired)
     = (Inr None, Some demoDesired, [LoadBalancersListCall ''api.k8s.local''])
   \<and> Find (demoCloud []\<lparr>loadbalancers_List := \<lambda>reqs n. Inr (Inr [demoRemote, demoRemote])\<rparr>)
        [] (Some demoDesired)
     = (Inl (Errorf ''Multiple load balancers for name api.k8s.local''), Some demoDesired,
        [LoadBalancersListCall ''api.k8s.local''])"
  using Find_match_count [of demoDesired "''api.k8s.local''"
          "demoCloud []\<lparr>loadbalancers_List := \<lambda>reqs n. Inr (Inr [])\<rparr>" "[]" "[]"]
        Find_match_count [of demoDesired "''api.k8s.local''"
          "demoCloud []\<lparr>loadbalancers_List := \<lambda>reqs n. Inr (Inr [demoRemote, demoRemote])\<rparr>"
          "[]" "[demoRemote, demoRemote]"]
  by (simp add: demoDesired_def)

lemma Find_one_match:
  assumes "Name s = Some n" and "loadbalancers_List cloud reqs n = Inr (Inr [lb])"
  shows "Find cloud reqs (Some s) =
           (case NewLBTaskFromCloud cloud (reqs @ [LoadBalancersListCall n]) (Lifecycle s) lb
                   (Some s) of
              (Inl err, s', reqs2) \<Rightarrow> (Inl err, s', reqs2)
            | (Inr actual, s', reqs2) \<Rightarrow> (Inr (Some actual), s', reqs2))"
  using assms by (simp add: Find_def ExtractLoadBalancers_def ValueOf_def Let_def)

lemma NewLBTaskFromCloud_subnet_fails:
  assumes "subnets_Get cloud reqs (lb_VipSubnetID lb) = Inl m"
  shows "NewLBTaskFromCloud cloud reqs lifecycle lb find_lb =
           (Inl (RemoteError m), find_lb, reqs @ [SubnetsGetCall (lb_VipSubnetID lb)])"
  using assms by (simp add: NewLBTaskFromCloud_def Let_def)

lemma NewLBTaskFromCloud_no_group:
  assumes "subnets_Get cloud reqs (lb_VipSubnetID lb) = Inr sub" and "SecurityGroup s = None"
  shows "NewLBTaskFromCloud cloud reqs lifecycle lb (Some s) =
           (Inr \<lparr>ID = Some (lb_ID lb), Name = Some (lb_Name lb),
                 Subnet = Some (subnet_Name sub), VipSubnet = Some (lb_VipSubnetID lb),
                 Lifecycle = lifecycle, PortID = Some (lb_VipPortID lb),
                 SecurityGroup = None, Provider = Some (lb_Provider lb),
                 FlavorID = Some (lb_FlavorID lb)\<rparr>,
            Some (s\<lparr>ID := Some (lb_ID lb), PortID := Some (lb_VipPortID lb),
                    VipSubnet := Some (lb_VipSubnetID lb), Provider := Some (lb_Provider lb),
                    FlavorID := Some (lb_FlavorID lb)\<rparr>),
            reqs @ [SubnetsGetCall (lb_VipSubnetID lb)])"
  using assms by (simp add: NewLBTaskFromCloud_def Let_def PtrTo_def)

lemma NewLBTaskFromCloud_group_fails:
  assumes "subnets_Get cloud reqs (lb_VipSubnetID lb) = Inr sub" and "SecurityGroup s \<noteq> None"
    and "getSecurityGroupByName cloud (reqs @ [SubnetsGetCall (lb_VipSubnetID lb)])
           \<lparr>SG_ID = None, SG_Name = Some (lb_Name lb)\<rparr> = Inl err"
  shows "NewLBTaskFromCloud cloud reqs lifecycle lb (Some s) =
           (Inl err, Some s,
            reqs @ [SubnetsGetCall (lb_VipSubnetID lb),
                    GetSecurityGroupByNameCall (Some (lb_Name lb))])"
  using assms by (simp add: NewLBTaskFromCloud_def Let_def PtrTo_def)

lemma NewLBTaskFromCloud_group_found:
  assumes "subnets_Get cloud reqs (lb_VipSubnetID lb) = Inr sub" and "SecurityGroup s \<noteq> None"
    and "getSecurityGroupByName cloud (reqs @ [SubnetsGetCall (lb_VipSubnetID lb)])
           \<lparr>SG_ID = None, SG_Name = Some (lb_Name lb)\<rparr> = Inr sg"
  shows "NewLBTaskFromCloud cloud reqs lifecycle lb (Some s) =
           (Inr \<lparr>ID = Some (lb_ID lb), Name = Some (lb_Name lb),
                 Subnet = Some (subnet_Name sub), VipSubnet = Some (lb_VipSubnetID lb),
                 Lifecycle = lifecycle, PortID = Some (lb_VipPortID lb),
                 SecurityGroup = sg, Provider = Some (lb_Provider lb),
                 FlavorID = Some (lb_FlavorID lb)\<rparr>,
            Some (s\<lparr>ID := Some (lb_ID lb), PortID := Some (lb_VipPortID lb),
                    VipSubnet := Some (lb_VipSubnetID lb), Provider := Some (lb_Provider lb),
                    FlavorID := Some (lb_FlavorID lb)\<rparr>),
            reqs @ [SubnetsGetCall (lb_VipSubnetID lb),
                    GetSecurityGroupByNameCall (Some (lb_Name lb))])"
  using assms by (simp add: NewLBTaskFromCloud_def Let_def PtrTo_def)

text \<open>
  Claim C7. When the listing has exactly one entry, discovery looks the entry's subnet
  identifier up; a failure of that lookup is the error of the call. Otherwise the
  descriptor returned carries the name of the subnet found. The security group is looked
  up, under the load balancer's own name, exactly when the caller's descriptor has a
  security group, and the descriptor returned carries the answer of that lookup. On
  success the identifier, port, subnet identifier, provider and flavor of the entry are
  written onto the caller's descriptor; its name, subnet, security group and lifecycle
  are never changed.
\<close>
theorem Find_single_match:
  assumes "Name s = Some n" and "loadbalancers_List cloud reqs n = Inr (Inr [lb])"
  shows "(let reqs1 = reqs @ [LoadBalancersListCall n];
              reqs2 = reqs1 @ [SubnetsGetCall (lb_VipSubnetID lb)];
              reqs3 = reqs2 @ [GetSecurityGroupByNameCall (Some (lb_Name lb))];
              written = s\<lparr>ID := Some (lb_ID lb),
                          PortID := Some (lb_VipPortID lb),
                          VipSubnet := Some (lb_VipSubnetID lb),
                          Provider := Some (lb_Provider lb),
                          FlavorID := Some (lb_FlavorID lb)\<rparr>;
              found = (\<lambda>sub sg. \<lparr>ID = Some (lb_ID lb),
                                    Name = Some (lb_Name lb),
                                    Subnet = Some (subnet_Name sub),
                                    VipSubnet = Some (lb_VipSubnetID lb),
                                    Lifecycle = Lifecycle s,
                                    PortID = Some (lb_VipPortID lb),
                                    SecurityGroup = sg,
                                    Provider = Some (lb_Provider lb),
                                    FlavorID = Some (lb_FlavorID lb)\<rparr>)
          in Find cloud reqs (Some s) =
               (case subnets_Get cloud reqs1 (lb_VipSubnetID lb) of
                  Inl m \<Rightarrow> (Inl (RemoteError m), Some s, reqs2)
                | Inr sub \<Rightarrow>
                    (if SecurityGroup s = None
                     then (Inr (Some (found sub None)), Some written, reqs2)
                     else (case getSecurityGroupByName cloud reqs2
                                  \<lparr>SG_ID = None, SG_Name = Some (lb_Name lb)\<rparr> of
                             Inl err \<Rightarrow> (Inl err, Some s, reqs3)
                           | Inr sg \<Rightarrow> (Inr (Some (found sub sg)), Some written, reqs3)))))
       \<and> (case fst (snd (Find cloud reqs (Some s))) of
             None \<Rightarrow> False
           | Some s' \<Rightarrow> Name s' = Name s \<and> Subnet s' = Subnet s
                        \<and> SecurityGroup s' = SecurityGroup s \<and> Lifecycle s' = Lifecycle s)
       \<and> ((\<exists>sub. subnets_Get cloud (reqs @ [LoadBalancersListCall n]) (lb_VipSubnetID lb) = Inr sub)
            \<longrightarrow> (GetSecurityGroupByNameCall (Some (lb_Name lb))
                    \<in> set (issued reqs (snd (snd (Find cloud reqs (Some s)))))
                  \<longleftrightarrow> SecurityGroup s \<noteq> None))"
proof -
  let ?reqs1 = "reqs @ [LoadBalancersListCall n]"
  let ?key = "\<lparr>SG_ID = None, SG_Name = Some (lb_Name lb)\<rparr>"
  note one = Find_one_match [OF assms]
  show ?thesis
  proof (cases "subnets_Get cloud ?reqs1 (lb_VipSubnetID lb)")
    case (Inl m)
    have "Find cloud reqs (Some s) =
            (Inl (RemoteError m), Some s, ?reqs1 @ [SubnetsGetCall (lb_VipSubnetID lb)])"
      by (simp add: one NewLBTaskFromCloud_subnet_fails [OF Inl])
    with Inl show ?thesis by (simp add: Let_def)
  next
    case (Inr sub)
    show ?thesis
    proof (cases "SecurityGroup s")
      case None
      have "Find cloud reqs (Some s) =
              (Inr (Some \<lparr>ID = Some (lb_ID lb), Name = Some (lb_Name lb),
                 Subnet = Some (subnet_Name sub), VipSubnet = Some (lb_VipSubnetID lb),
                 Lifecycle = Lifecycle s, PortID = Some (lb_VipPortID lb),
                 SecurityGroup = None, Provider = Some (lb_Provider lb),
                 FlavorID = Some (lb_FlavorID lb)\<rparr>),
               Some (s\<lparr>ID := Some (lb_ID lb), PortID := Some (lb_VipPortID lb),
                    VipSubnet := Some (lb_VipSubnetID lb), Provider := Some (lb_Provider lb),
                    FlavorID := Some (lb_FlavorID lb)\<rparr>),
               ?reqs1 @ [SubnetsGetCall (lb_VipSubnetID lb)])"
        by (simp add: one NewLBTaskFromCloud_no_group [OF Inr None])
      with Inr None show ?thesis by (simp add: Let_def issued_def)
    next
      case (Some g)
      then have g: "SecurityGroup s \<noteq> None" by simp
      show ?thesis
      proof (cases "getSecurityGroupByName cloud
                      (?reqs1 @ [SubnetsGetCall (lb_VipSubnetID lb)]) ?key")
        case (Inl err)
        have "Find cloud reqs (Some s) =
                (Inl err, Some s,
                 ?reqs1 @ [SubnetsGetCall (lb_VipSubnetID lb),
                           GetSecurityGroupByNameCall (Some (lb_Name lb))])"
          by (simp add: one NewLBTaskFromCloud_group_fails [OF Inr g Inl])
        with Inr Some Inl show ?thesis by (simp add: Let_def issued_def)
      next
        case (Inr sg)
        have "Find cloud reqs (Some s) =
              (Inr (Some \<lparr>ID = Some (lb_ID lb), Name = Some (lb_Name lb),
                 Subnet = Some (subnet_Name sub), VipSubnet = Some (lb_VipSubnetID lb),
                 Lifecycle = Lifecycle s, PortID = Some (lb_VipPortID lb),
                 SecurityGroup = sg, Provider = Some (lb_Provider lb),
                 FlavorID = Some (lb_FlavorID lb)\<rparr>),
               Some (s\<lparr>ID := Some (lb_ID lb), PortID := Some (lb_VipPortID lb),
                    VipSubnet := Some (lb_VipSubnetID lb), Provider := Some (lb_Provider lb),
                    FlavorID := Some (lb_FlavorID lb)\<rparr>),
               ?reqs1 @ [SubnetsGetCall (lb_VipSubnetID lb),
                         GetSecurityGroupByNameCall (Some (lb_Name lb))])"
          by (simp add: one NewLBTaskFromCloud_group_found [OF \<open>subnets_Get cloud ?reqs1 (lb_VipSubnetID lb) = Inr sub\<close> g Inr])
        with \<open>subnets_Get cloud ?reqs1 (lb_VipSubnetID lb) = Inr sub\<close> Some Inr
        show ?thesis by (simp add: Let_def issued_def)
      qed
    qed
  qed
qed

theorem Find_single_match_witness:
  "Find (demoCloud []) [] (Some demoDesired)
     = (Inr (Some (demoActual\<lparr>Lifecycle := Lifecycle demoDesired\<rparr>)),
        Some (demoDesired\<lparr>ID := Some ''lb-1'', PortID := Some ''port-1'',
                            VipSubnet := Some ''sub-1'', Provider := Some ''octavia'',
                            FlavorID := Some ''small''\<rparr>),
        [LoadBalancersListCall ''api.k8s.local'', SubnetsGetCall ''sub-1'',
         GetSecurityGroupByNameCall (Some ''api.k8s.local'')])"
  using Find_single_match
          [where s = demoDesired and n = "''api.k8s.local''" and cloud = "demoCloud []"
             and reqs = "[]" and lb = demoRemote]
  by (simp add: demoDesired_def demoCloud_def demoRemote_def demoSubnet_def demoGroup_def
        demoActual_def)

subsection \<open>Convergence: the repair path\<close>

text \<open>
  Claim C10. With the actual descriptor present, the first request of convergence is the
  fetch of the port named by the actual descriptor, whatever the desired descriptor is;
  when that fetch fails the call fails with an error naming the port identifier, and
  nothing else has been sent.
\<close>
theorem RenderOpenstack_port_fetch_first:
  "(\<exists>rest. snd (snd (RenderOpenstack cloud reqs (Some a) e changes))
             = reqs @ GetPortCall (ValueOf (PortID a)) # rest)
   \<and> (GetPort cloud reqs (ValueOf (PortID a)) = Inl m \<longrightarrow>
        RenderOpenstack cloud reqs (Some a) e changes =
          (Some (Errorf (''Failed to get port with id '' @ ValueOf (PortID a) @ '': '' @ m)),
           e, reqs @ [GetPortCall (ValueOf (PortID a))]))"
  by (simp add: RenderOpenstack_def Let_def split: sum.split option.split)

theorem RenderOpenstack_port_fetch_first_witness:
  "RenderOpenstack (demoCloud []\<lparr>GetPort := \<lambda>reqs i. Inl ''timeout''\<rparr>) []
       (Some demoActual) (Some (demoDesired\<lparr>SecurityGroup := None\<rparr>)) None
     = (Some (Errorf ''Failed to get port with id port-1: timeout''),
        Some (demoDesired\<lparr>SecurityGroup := None\<rparr>), [GetPortCall ''port-1''])"
  using RenderOpenstack_port_fetch_first
          [where cloud = "demoCloud []\<lparr>GetPort := \<lambda>reqs i. Inl ''timeout''\<rparr>" and reqs = "[]"
             and a = demoActual and e = "Some (demoDesired\<lparr>SecurityGroup := None\<rparr>)"
             and changes = None and m = "''timeout''"]
  by (simp add: demoActual_def ValueOf_def)

text \<open>
  Claim C1. With the actual descriptor present and a security group desired, when the
  fetched port has no security group or its first one is not the desired one,
  convergence sends, after the fetch, exactly one update of that port, setting its
  security groups to the desired one alone. It sends no creation and no other mutation,
  does not change the desired descriptor, and fails only if the update fails.
\<close>
theorem RenderOpenstack_repair:
  assumes "SecurityGroup e = Some sg"
    and "GetPort cloud reqs (ValueOf (PortID a)) = Inr port"
    and "port_SecurityGroups port = [] \<or> port_SecurityGroups port ! 0 \<noteq> ValueOf (SG_ID sg)"
  shows "RenderOpenstack cloud reqs (Some a) (Some e) changes =
           ((case ports_Update cloud (reqs @ [GetPortCall (ValueOf (PortID a))])
                    (ValueOf (PortID a)) [ValueOf (SG_ID sg)] of
               None \<Rightarrow> None
             | Some m \<Rightarrow> Some (Errorf (''Failed to update security group for port ''
                                         @ ValueOf (PortID a) @ '': '' @ m))),
            Some e,
            reqs @ [GetPortCall (ValueOf (PortID a)),
                    PortsUpdateCall (ValueOf (PortID a)) [ValueOf (SG_ID sg)]])
       \<and> filter is_mutation
            (issued reqs (snd (snd (RenderOpenstack cloud reqs (Some a) (Some e) changes))))
          = [PortsUpdateCall (ValueOf (PortID a)) [ValueOf (SG_ID sg)]]"
  using assms
  by (auto simp: RenderOpenstack_def Let_def issued_def split: option.split)

theorem RenderOpenstack_repair_witness:
  "RenderOpenstack (demoCloud [''sg-0'', ''sg-1'']) [] (Some demoActual) (Some demoDesired) None
     = (None, Some demoDesired,
        [GetPortCall ''port-1'', PortsUpdateCall ''port-1'' [''sg-1'']])
   \<and> RenderOpenstack (demoCloud []) [] (Some demoActual) (Some demoDesired) None
     = (None, Some demoDesired,
        [GetPortCall ''port-1'', PortsUpdateCall ''port-1'' [''sg-1'']])"
  using RenderOpenstack_repair
          [where e = demoDesired and sg = demoGroup and cloud = "demoCloud [''sg-0'', ''sg-1'']"
             and reqs = "[]" and a = demoActual
             and port = "\<lparr>port_SecurityGroups = [''sg-0'', ''sg-1'']\<rparr>" and changes = None]
        RenderOpenstack_repair
          [where e = demoDesired and sg = demoGroup and cloud = "demoCloud []"
             and reqs = "[]" and a = demoActual
             and port = "\<lparr>port_SecurityGroups = []\<rparr>" and changes = None]
  by (simp add: demoDesired_def demoActual_def demoGroup_def demoCloud_def ValueOf_def)

text \<open>
  Claim C2 as stated promises a call without an error whenever the actual descriptor is
  present and no security group is desired. The port is fetched all the same, so a
  failing fetch makes the call fail.
\<close>
theorem RenderOpenstack_noop_counterexample:
  "SecurityGroup (demoDesired\<lparr>SecurityGroup := None\<rparr>) = None
   \<and> fst (RenderOpenstack (demoCloud []\<lparr>GetPort := \<lambda>reqs i. Inl ''timeout''\<rparr>) []
            (Some demoActual) (Some (demoDesired\<lparr>SecurityGroup := None\<rparr>)) None)
       = Some (Errorf ''Failed to get port with id port-1: timeout'')"
  by (simp add: RenderOpenstack_def demoActual_def ValueOf_def)

text \<open>
  Claim C2, amended. With the actual descriptor present, when no security group is
  desired, or the fetched port already has the desired security group first,
  convergence sends the port fetch and nothing else (no creation, no port update) and
  leaves the desired descriptor as it is; it returns no error provided the port fetch
  succeeded.
\<close>
theorem RenderOpenstack_noop:
  assumes "SecurityGroup e = None
           \<or> (\<exists>sg port. SecurityGroup e = Some sg
                 \<and> GetPort cloud reqs (ValueOf (PortID a)) = Inr port
                 \<and> port_SecurityGroups port \<noteq> []
                 \<and> port_SecurityGroups port ! 0 = ValueOf (SG_ID sg))"
  shows "snd (RenderOpenstack cloud reqs (Some a) (Some e) changes)
           = (Some e, reqs @ [GetPortCall (ValueOf (PortID a))])
       \<and> filter is_mutation
            (issued reqs (snd (snd (RenderOpenstack cloud reqs (Some a) (Some e) changes)))) = []
       \<and> ((\<exists>port. GetPort cloud reqs (ValueOf (PortID a)) = Inr port) \<longrightarrow>
            fst (RenderOpenstack cloud reqs (Some a) (Some e) changes) = None)"
  using assms
  by (auto simp: RenderOpenstack_def Let_def issued_def split: option.split sum.split)

theorem RenderOpenstack_noop_witness:
  "RenderOpenstack (demoCloud [''sg-1'']) [] (Some demoActual) (Some demoDesired) None
     = (None, Some demoDesired, [GetPortCall ''port-1''])
   \<and> RenderOpenstack (demoCloud []) [] (Some demoActual)
        (Some (demoDesired\<lparr>SecurityGroup := None\<rparr>)) None
     = (None, Some (demoDesired\<lparr>SecurityGroup := None\<rparr>), [GetPortCall ''port-1''])"
  using RenderOpenstack_noop
          [where e = demoDesired and cloud = "demoCloud [''sg-1'']"
             and reqs = "[]" and a = demoActual and changes = None]
        RenderOpenstack_noop
          [where e = "demoDesired\<lparr>SecurityGroup := None\<rparr>" and cloud = "demoCloud []"
             and reqs = "[]" and a = demoActual and changes = None]
  by (simp add: demoDesired_def demoActual_def demoGroup_def demoCloud_def ValueOf_def prod_eq_iff)

subsection \<open>Convergence: the creation path\<close>

lemma Sprint_d_0: "Sprint_d 0 = ''0''"
  by (simp add: Sprint_d.simps)

lemma RenderOpenstack_create_not_one:
  assumes "ListSubnets cloud reqs (ValueOf (Subnet e)) = Inr subnets" and "length subnets \<noteq> 1"
  shows "RenderOpenstack cloud reqs None (Some e) changes =
              (Some (Errorf (''Unexpected desired subnets for `'' @ ValueOf (Subnet e)
                               @ ''`.  Expected 1, got '' @ Sprint_d (length subnets))),
               Some e, reqs @ [ListSubnetsCall (ValueOf (Subnet e))])"
  using assms by (simp add: RenderOpenstack_def Let_def)

lemma RenderOpenstack_create_fails:
  assumes "ListSubnets cloud reqs (ValueOf (Subnet e)) = Inr [sub]"
    and "CreateLB cloud (reqs @ [ListSubnetsCall (ValueOf (Subnet e))])
           \<lparr>opts_Name = ValueOf (Name e), opts_VipSubnetID = subnet_ID sub,
            opts_FlavorID = (case FlavorID e of None \<Rightarrow> [] | Some f \<Rightarrow> f)\<rparr> = Inl m"
  shows "RenderOpenstack cloud reqs None (Some e) changes =
           (Some (Errorf (''error creating LB: '' @ m)), Some e,
            reqs @ [ListSubnetsCall (ValueOf (Subnet e)),
                    CreateLBCall \<lparr>opts_Name = ValueOf (Name e), opts_VipSubnetID = subnet_ID sub,
                      opts_FlavorID = (case FlavorID e of None \<Rightarrow> [] | Some f \<Rightarrow> f)\<rparr>])"
  using assms by (cases "FlavorID e") (simp_all add: RenderOpenstack_def Let_def ValueOf_def)

lemma RenderOpenstack_create_succeeds:
  assumes "ListSubnets cloud reqs (ValueOf (Subnet e)) = Inr [sub]"
    and "CreateLB cloud (reqs @ [ListSubnetsCall (ValueOf (Subnet e))])
           \<lparr>opts_Name = ValueOf (Name e), opts_VipSubnetID = subnet_ID sub,
            opts_FlavorID = (case FlavorID e of None \<Rightarrow> [] | Some f \<Rightarrow> f)\<rparr> = Inr lb"
  shows "snd (RenderOpenstack cloud reqs None (Some e) changes) =
           (Some (e\<lparr>ID := Some (lb_ID lb),
                    PortID := Some (lb_VipPortID lb),
                    VipSubnet := Some (lb_VipSubnetID lb),
                    Provider := Some (lb_Provider lb),
                    FlavorID := Some (lb_FlavorID lb)\<rparr>),
            reqs @ [ListSubnetsCall (ValueOf (Subnet e)),
                    CreateLBCall \<lparr>opts_Name = ValueOf (Name e), opts_VipSubnetID = subnet_ID sub,
                      opts_FlavorID = (case FlavorID e of None \<Rightarrow> [] | Some f \<Rightarrow> f)\<rparr>]
                 @ (case SecurityGroup e of
                      None \<Rightarrow> []
                    | Some sg \<Rightarrow> [PortsUpdateCall (lb_VipPortID lb) [ValueOf (SG_ID sg)]]))"
  using assms
  by (cases "FlavorID e"; cases "SecurityGroup e")
     (simp_all add: RenderOpenstack_def Let_def ValueOf_def PtrTo_def split: option.split)

text \<open>
  Claim C6. With the actual descriptor absent, when the listing of subnets under the
  desired subnet name does not have exactly one entry, convergence fails and sends no
  creation. With exactly one entry it sends one creation carrying the name, the
  identifier of that subnet, and the flavor when the desired descriptor has one. When
  the creation succeeds, the identifier, port, subnet identifier, provider and flavor of
  the created load balancer are written onto the desired descriptor, and the only
  further request is the port update for a desired security group.
\<close>
theorem RenderOpenstack_create:
  assumes "ListSubnets cloud reqs (ValueOf (Subnet e)) = Inr subnets"
  shows "(length subnets \<noteq> 1 \<longrightarrow>
            RenderOpenstack cloud reqs None (Some e) changes =
              (Some (Errorf (''Unexpected desired subnets for `'' @ ValueOf (Subnet e)
                               @ ''`.  Expected 1, got '' @ Sprint_d (length subnets))),
               Some e, reqs @ [ListSubnetsCall (ValueOf (Subnet e))]))
       \<and> (\<forall>sub. subnets = [sub] \<longrightarrow>
            (let reqs1 = reqs @ [ListSubnetsCall (ValueOf (Subnet e))];
                 opts = \<lparr>opts_Name = ValueOf (Name e),
                         opts_VipSubnetID = subnet_ID sub,
                         opts_FlavorID = (case FlavorID e of None \<Rightarrow> [] | Some f \<Rightarrow> f)\<rparr>;
                 reqs2 = reqs1 @ [CreateLBCall opts]
             in (case CreateLB cloud reqs1 opts of
                   Inl m \<Rightarrow>
                     RenderOpenstack cloud reqs None (Some e) changes =
                       (Some (Errorf (''error creating LB: '' @ m)), Some e, reqs2)
                 | Inr lb \<Rightarrow>
                     snd (RenderOpenstack cloud reqs None (Some e) changes) =
                       (Some (e\<lparr>ID := Some (lb_ID lb),
                                PortID := Some (lb_VipPortID lb),
                                VipSubnet := Some (lb_VipSubnetID lb),
                                Provider := Some (lb_Provider lb),
                                FlavorID := Some (lb_FlavorID lb)\<rparr>),
                        reqs2 @ (case SecurityGroup e of
                                   None \<Rightarrow> []
                                 | Some sg \<Rightarrow>
                                     [PortsUpdateCall (lb_VipPortID lb) [ValueOf (SG_ID sg)]])))))"
proof (intro conjI impI allI)
  assume "length subnets \<noteq> 1"
  with assms show "RenderOpenstack cloud reqs None (Some e) changes =
              (Some (Errorf (''Unexpected desired subnets for `'' @ ValueOf (Subnet e)
                               @ ''`.  Expected 1, got '' @ Sprint_d (length subnets))),
               Some e, reqs @ [ListSubnetsCall (ValueOf (Subnet e))])"
    by (rule RenderOpenstack_create_not_one)
next
  fix sub
  assume "subnets = [sub]"
  with assms have l: "ListSubnets cloud reqs (ValueOf (Subnet e)) = Inr [sub]" by simp
  show "(let reqs1 = reqs @ [ListSubnetsCall (ValueOf (Subnet e))];
                 opts = \<lparr>opts_Name = ValueOf (Name e),
                         opts_VipSubnetID = subnet_ID sub,
                         opts_FlavorID = (case FlavorID e of None \<Rightarrow> [] | Some f \<Rightarrow> f)\<rparr>;
                 reqs2 = reqs1 @ [CreateLBCall opts]
             in (case CreateLB cloud reqs1 opts of
                   Inl m \<Rightarrow>
                     RenderOpenstack cloud reqs None (Some e) changes =
                       (Some (Errorf (''error creating LB: '' @ m)), Some e, reqs2)
                 | Inr lb \<Rightarrow>
                     snd (RenderOpenstack cloud reqs None (Some e) changes) =
                       (Some (e\<lparr>ID := Some (lb_ID lb),
                                PortID := Some (lb_VipPortID lb),
                                VipSubnet := Some (lb_VipSubnetID lb),
                                Provider := Some (lb_Provider lb),
                                FlavorID := Some (lb_FlavorID lb)\<rparr>),
                        reqs2 @ (case SecurityGroup e of
                                   None \<Rightarrow> []
                                 | Some sg \<Rightarrow>
                                     [PortsUpdateCall (lb_VipPortID lb) [ValueOf (SG_ID sg)]]))))"
    unfolding Let_def
    using RenderOpenstack_create_fails [OF l] RenderOpenstack_create_succeeds [OF l]
    by (simp split: sum.split)
qed

theorem RenderOpenstack_create_witness:
  "RenderOpenstack (demoCloud []\<lparr>ListSubnets := \<lambda>reqs n. Inr []\<rparr>) [] None (Some demoDesired) None
     = (Some (Errorf ''Unexpected desired subnets for `net-a`.  Expected 1, got 0''),
        Some demoDesired, [ListSubnetsCall ''net-a''])
   \<and> snd (RenderOpenstack (demoCloud []) [] None (Some demoDesired) None)
     = (Some (demoDesired\<lparr>ID := Some ''lb-1'', PortID := Some ''port-1'',
                            VipSubnet := Some ''sub-1'', Provider := Some ''octavia'',
                            FlavorID := Some ''small''\<rparr>),
        [ListSubnetsCall ''net-a'',
         CreateLBCall \<lparr>opts_Name = ''api.k8s.local'', opts_VipSubnetID = ''sub-1'',
                       opts_FlavorID = []\<rparr>,
         PortsUpdateCall ''port-1'' [''sg-1'']])"
  using RenderOpenstack_create
          [where cloud = "demoCloud []\<lparr>ListSubnets := \<lambda>reqs n. Inr []\<rparr>" and reqs = "[]"
             and e = demoDesired and subnets = "[]" and changes = None]
        RenderOpenstack_create
          [where cloud = "demoCloud []" and reqs = "[]"
             and e = demoDesired and subnets = "[demoSubnet]" and changes = None]
  by (simp add: demoDesired_def demoCloud_def demoRemote_def demoSubnet_def demoGroup_def
        ValueOf_def Sprint_d_0)

subsection \<open>The poller\<close>

lemma fetchOutcome_0: "fetchOutcome cloud reqs lbid 0 = loadbalancers_Get cloud reqs lbid"
  by (simp add: fetchOutcome_def)

lemma fetchOutcome_shift:
  "fetchOutcome cloud (reqs @ [LoadBalancersGetCall lbid]) lbid j = fetchOutcome cloud reqs lbid (Suc j)"
  by (simp add: fetchOutcome_def)

lemma Steps_Step: "Steps (snd (Step b)) = Steps b - 1"
  by (simp add: Step_def)

lemma Steps_advance: "Steps (advance k b) = Steps b - int k"
  by (induction k arbitrary: b) (simp_all add: Steps_Step)

lemma pollCondition_inProgress:
  assumes "inProgress (loadbalancers_Get cloud reqs lbid)"
  shows "\<exists>st'. pollCondition cloud lbid (st, reqs) =
           ((False, None), (st', reqs @ [LoadBalancersGetCall lbid]))"
  using assms by (auto simp: pollCondition_def inProgress_def split: sum.splits)

lemma ExponentialBackoff_inProgress_prefix:
  assumes "\<forall>j<k. inProgress (fetchOutcome cloud reqs lbid j)" and "int k < Steps b"
  shows "\<exists>st'. ExponentialBackoff b (pollCondition cloud lbid) (st, reqs) slept =
           ExponentialBackoff (advance k b) (pollCondition cloud lbid)
             (st', reqs @ replicate k (LoadBalancersGetCall lbid)) (slept @ delays k b)"
  using assms
proof (induction k arbitrary: b st reqs slept)
  case 0
  then show ?case by auto
next
  case (Suc k)
  let ?c = "LoadBalancersGetCall lbid"
  from Suc.prems(1) have "inProgress (loadbalancers_Get cloud reqs lbid)"
    using fetchOutcome_0 [of cloud reqs lbid] by (metis zero_less_Suc)
  then obtain st1 where c1: "pollCondition cloud lbid (st, reqs) = ((False, None), (st1, reqs @ [?c]))"
    using pollCondition_inProgress by blast
  from Suc.prems(2) have steps: "Steps b > 0" "Steps b \<noteq> 1" by auto
  have unfold1: "ExponentialBackoff b (pollCondition cloud lbid) (st, reqs) slept =
      ExponentialBackoff (snd (Step b)) (pollCondition cloud lbid) (st1, reqs @ [?c])
        (slept @ [fst (Step b)])"
    by (subst ExponentialBackoff.simps) (simp add: c1 steps)
  have p1: "\<forall>j<k. inProgress (fetchOutcome cloud (reqs @ [?c]) lbid j)"
    using Suc.prems(1) by (simp add: fetchOutcome_shift)
  have p2: "int k < Steps (snd (Step b))"
    using Suc.prems(2) by (simp add: Steps_Step)
  from Suc.IH [OF p1 p2, of st1 "slept @ [fst (Step b)]"]
  obtain st' where "ExponentialBackoff (snd (Step b)) (pollCondition cloud lbid) (st1, reqs @ [?c])
        (slept @ [fst (Step b)]) =
      ExponentialBackoff (advance k (snd (Step b))) (pollCondition cloud lbid)
        (st', (reqs @ [?c]) @ replicate k ?c) ((slept @ [fst (Step b)]) @ delays k (snd (Step b)))"
    by blast
  with unfold1 show ?case
    by (auto simp: replicate_app_Cons_same)
qed

lemma ExponentialBackoff_fetch_fails:
  assumes "0 < Steps b" and "loadbalancers_Get cloud reqs lbid = Inl m"
  shows "ExponentialBackoff b (pollCondition cloud lbid) (st, reqs) slept =
           (Some (RemoteError m), (st, reqs @ [LoadBalancersGetCall lbid]), slept)"
  using assms by (subst ExponentialBackoff.simps) (simp add: pollCondition_def)

lemma ExponentialBackoff_active:
  assumes "0 < Steps b" and "loadbalancers_Get cloud reqs lbid = Inr lb"
    and "lb_ProvisioningStatus lb = activeStatus"
  shows "ExponentialBackoff b (pollCondition cloud lbid) (st, reqs) slept =
           (None, (activeStatus, reqs @ [LoadBalancersGetCall lbid]), slept)"
  using assms by (subst ExponentialBackoff.simps) (simp add: pollCondition_def)

lemma ExponentialBackoff_error:
  assumes "0 < Steps b" and "loadbalancers_Get cloud reqs lbid = Inr lb"
    and "lb_ProvisioningStatus lb = errorStatus"
  shows "ExponentialBackoff b (pollCondition cloud lbid) (st, reqs) slept =
           (Some (Errorf ''loadbalancer has gone into ERROR state''),
            (errorStatus, reqs @ [LoadBalancersGetCall lbid]), slept)"
  using assms by (subst ExponentialBackoff.simps) (simp add: pollCondition_def activeStatus_def errorStatus_def)

lemma ExponentialBackoff_last_inProgress:
  assumes "Steps b = 1" and "inProgress (loadbalancers_Get cloud reqs lbid)"
  shows "\<exists>st'. ExponentialBackoff b (pollCondition cloud lbid) (st, reqs) slept =
           (Some ErrWaitTimeout, (st', reqs @ [LoadBalancersGetCall lbid]), slept)"
proof -
  obtain st1 where "pollCondition cloud lbid (st, reqs) =
      ((False, None), (st1, reqs @ [LoadBalancersGetCall lbid]))"
    using pollCondition_inProgress [OF assms(2)] by blast
  then show ?thesis
    using assms(1) by (subst ExponentialBackoff.simps) simp
qed

lemma Steps_pollerBackoff: "Steps pollerBackoff = 22"
  by (simp add: pollerBackoff_def loadbalancerActiveSteps_def)

lemma wait_unfold:
  "waitLoadbalancerActiveProvisioningStatus cloud reqs lbid =
     (case ExponentialBackoff pollerBackoff (pollCondition cloud lbid) ([], reqs) [] of
        (err, (provisioningStatus, reqs'), slept) \<Rightarrow>
          ((provisioningStatus,
            if err = Some ErrWaitTimeout then
              Some (Errorf ''loadbalancer failed to go into ACTIVE provisioning status within allotted time'')
            else err), reqs', slept))"
  by (simp add: waitLoadbalancerActiveProvisioningStatus_def pollerBackoff_def Let_def)

lemma wait_after_prefix:
  assumes "k < 22" and "\<forall>j<k. inProgress (fetchOutcome cloud reqs lbid j)"
  shows "\<exists>st'. ExponentialBackoff pollerBackoff (pollCondition cloud lbid) ([], reqs) [] =
           ExponentialBackoff (advance k pollerBackoff) (pollCondition cloud lbid)
             (st', reqs @ replicate k (LoadBalancersGetCall lbid)) (delays k pollerBackoff)"
    and "Steps (advance k pollerBackoff) = 22 - int k"
proof -
  have "int k < Steps pollerBackoff" using assms(1) by (simp add: Steps_pollerBackoff)
  from ExponentialBackoff_inProgress_prefix [OF assms(2) this, of "[]" "[]"]
  show "\<exists>st'. ExponentialBackoff pollerBackoff (pollCondition cloud lbid) ([], reqs) [] =
           ExponentialBackoff (advance k pollerBackoff) (pollCondition cloud lbid)
             (st', reqs @ replicate k (LoadBalancersGetCall lbid)) (delays k pollerBackoff)"
    by simp
  show "Steps (advance k pollerBackoff) = 22 - int k"
    using assms(1) Steps_advance [of k pollerBackoff] by (simp add: Steps_pollerBackoff)
qed

lemma wait_fetch_fails:
  assumes "k < 22" and "\<forall>j<k. inProgress (fetchOutcome cloud reqs lbid j)"
    and "fetchOutcome cloud reqs lbid k = Inl m"
  shows "\<exists>st. waitLoadbalancerActiveProvisioningStatus cloud reqs lbid =
           ((st, Some (RemoteError m)), reqs @ replicate (Suc k) (LoadBalancersGetCall lbid),
            delays k pollerBackoff)"
proof -
  let ?c = "LoadBalancersGetCall lbid"
  from wait_after_prefix [OF assms(1,2)] obtain st' where
    e: "ExponentialBackoff pollerBackoff (pollCondition cloud lbid) ([], reqs) [] =
          ExponentialBackoff (advance k pollerBackoff) (pollCondition cloud lbid)
            (st', reqs @ replicate k ?c) (delays k pollerBackoff)"
    and s: "0 < Steps (advance k pollerBackoff)"
    using assms(1) by auto
  have g: "loadbalancers_Get cloud (reqs @ replicate k ?c) lbid = Inl m"
    using assms(3) by (simp add: fetchOutcome_def)
  show ?thesis
    by (simp add: wait_unfold e ExponentialBackoff_fetch_fails [OF s g] replicate_append_same)
qed

lemma wait_active:
  assumes "k < 22" and "\<forall>j<k. inProgress (fetchOutcome cloud reqs lbid j)"
    and "fetchOutcome cloud reqs lbid k = Inr lb" and "lb_ProvisioningStatus lb = activeStatus"
  shows "waitLoadbalancerActiveProvisioningStatus cloud reqs lbid =
           ((activeStatus, None), reqs @ replicate (Suc k) (LoadBalancersGetCall lbid),
            delays k pollerBackoff)"
proof -
  let ?c = "LoadBalancersGetCall lbid"
  from wait_after_prefix [OF assms(1,2)] obtain st' where
    e: "ExponentialBackoff pollerBackoff (pollCondition cloud lbid) ([], reqs) [] =
          ExponentialBackoff (advance k pollerBackoff) (pollCondition cloud lbid)
            (st', reqs @ replicate k ?c) (delays k pollerBackoff)"
    and s: "0 < Steps (advance k pollerBackoff)"
    using assms(1) by auto
  have g: "loadbalancers_Get cloud (reqs @ replicate k ?c) lbid = Inr lb"
    using assms(3) by (simp add: fetchOutcome_def)
  show ?thesis
    by (simp add: wait_unfold e ExponentialBackoff_active [OF s g assms(4)] replicate_append_same)
qed

lemma wait_error:
  assumes "k < 22" and "\<forall>j<k. inProgress (fetchOutcome cloud reqs lbid j)"
    and "fetchOutcome cloud reqs lbid k = Inr lb" and "lb_ProvisioningStatus lb = errorStatus"
  shows "waitLoadbalancerActiveProvisioningStatus cloud reqs lbid =
           ((errorStatus, Some (Errorf ''loadbalancer has gone into ERROR state'')),
            reqs @ replicate (Suc k) (LoadBalancersGetCall lbid), delays k pollerBackoff)"
proof -
  let ?c = "LoadBalancersGetCall lbid"
  from wait_after_prefix [OF assms(1,2)] obtain st' where
    e: "ExponentialBackoff pollerBackoff (pollCondition cloud lbid) ([], reqs) [] =
          ExponentialBackoff (advance k pollerBackoff) (pollCondition cloud lbid)
            (st', reqs @ replicate k ?c) (delays k pollerBackoff)"
    and s: "0 < Steps (advance k pollerBackoff)"
    using assms(1) by auto
  have g: "loadbalancers_Get cloud (reqs @ replicate k ?c) lbid = Inr lb"
    using assms(3) by (simp add: fetchOutcome_def)
  show ?thesis
    by (simp add: wait_unfold e ExponentialBackoff_error [OF s g assms(4)] replicate_append_same)
qed

lemma wait_timeout:
  assumes "\<forall>j<22. inProgress (fetchOutcome cloud reqs lbid j)"
  shows "\<exists>st. waitLoadbalancerActiveProvisioningStatus cloud reqs lbid =
           ((st, Some (Errorf ''loadbalancer failed to go into ACTIVE provisioning status within allotted time'')),
            reqs @ replicate 22 (LoadBalancersGetCall lbid), delays 21 pollerBackoff)"
proof -
  let ?c = "LoadBalancersGetCall lbid"
  have p: "\<forall>j<21. inProgress (fetchOutcome cloud reqs lbid j)" using assms by simp
  have k: "(21::nat) < 22" by simp
  from wait_after_prefix [OF k p] obtain st' where
    e: "ExponentialBackoff pollerBackoff (pollCondition cloud lbid) ([], reqs) [] =
          ExponentialBackoff (advance 21 pollerBackoff) (pollCondition cloud lbid)
            (st', reqs @ replicate 21 ?c) (delays 21 pollerBackoff)"
    and s: "Steps (advance 21 pollerBackoff) = 1"
    by auto
  have g: "inProgress (loadbalancers_Get cloud (reqs @ replicate 21 ?c) lbid)"
    using assms by (simp add: fetchOutcome_def)
  from ExponentialBackoff_last_inProgress [OF s g, of st' "delays 21 pollerBackoff"]
  obtain st where "ExponentialBackoff (advance 21 pollerBackoff) (pollCondition cloud lbid)
            (st', reqs @ replicate 21 ?c) (delays 21 pollerBackoff) =
          (Some ErrWaitTimeout, (st, (reqs @ replicate 21 ?c) @ [?c]), delays 21 pollerBackoff)"
    by blast
  then have "waitLoadbalancerActiveProvisioningStatus cloud reqs lbid =
           ((st, Some (Errorf ''loadbalancer failed to go into ACTIVE provisioning status within allotted time'')),
            reqs @ replicate 22 ?c, delays 21 pollerBackoff)"
    using replicate_append_same [of 21 ?c] replicate_Suc [of 21 ?c] by (simp add: wait_unfold e)
  then show ?thesis by blast
qed

lemma delays_21: "delays 21 pollerBackoff =
    [1000000000, 1200000000, 1440000000, 1728000000, 2073600000, 2488320000,
     2985984000, 3583180800, 4299816960, 5159780352, 6191736422, 7430083706,
     8916100447, 10699320536, 12839184643, 15407021571, 18488425885,
     22186111062, 26623333274, 31947999928, 38337599913]"
  by code_simp

lemma delays_22: "delays 22 pollerBackoff = delays 21 pollerBackoff @ [46005119895]"
  by code_simp

lemma first_delays:
  "fst (Step pollerBackoff) = 1000000000"
  "fst (Step (snd (Step pollerBackoff))) = 1200000000"
  by code_simp+

lemma fetchOutcome_statusFeed:
  "fetchOutcome (demoCloud []\<lparr>loadbalancers_Get := statusFeed statuses\<rparr>) [] lbid j =
     (if j < length statuses
      then Inr (demoRemote\<lparr>lb_ProvisioningStatus := statuses ! j\<rparr>)
      else Inl ''connection reset'')"
  by (simp add: fetchOutcome_def statusFeed_def)

text \<open>
  Claim C5. Let the first \<open>k\<close> status fetches answer a status that is neither
  \<open>ACTIVE\<close> nor \<open>ERROR\<close>, with \<open>k\<close> below the 22 steps. If fetch \<open>k\<close> fails, the poller
  returns that error at once. If it answers \<open>ACTIVE\<close>, the poller returns success. If it
  answers \<open>ERROR\<close>, the poller returns the failure error at once. In each case exactly
  \<open>k + 1\<close> fetches were sent. If all 22 fetches answer a non-terminal status, the poller
  returns the timeout error after 22 fetches. The timeout error differs from the failure
  error and from any error of the provider client.
\<close>
theorem poller_terminal_status:
  assumes "k < 22" and "\<forall>j<k. inProgress (fetchOutcome cloud reqs lbid j)"
  shows "(\<forall>m. fetchOutcome cloud reqs lbid k = Inl m \<longrightarrow>
            snd (fst (waitLoadbalancerActiveProvisioningStatus cloud reqs lbid))
              = Some (RemoteError m)
            \<and> snd (waitLoadbalancerActiveProvisioningStatus cloud reqs lbid)
              = (reqs @ replicate (Suc k) (LoadBalancersGetCall lbid), delays k pollerBackoff))
       \<and> (\<forall>lb. fetchOutcome cloud reqs lbid k = Inr lb
                 \<and> lb_ProvisioningStatus lb = ''ACTIVE'' \<longrightarrow>
            waitLoadbalancerActiveProvisioningStatus cloud reqs lbid
              = ((''ACTIVE'', None),
                 reqs @ replicate (Suc k) (LoadBalancersGetCall lbid), delays k pollerBackoff))
       \<and> (\<forall>lb. fetchOutcome cloud reqs lbid k = Inr lb
                 \<and> lb_ProvisioningStatus lb = ''ERROR'' \<longrightarrow>
            waitLoadbalancerActiveProvisioningStatus cloud reqs lbid
              = ((''ERROR'', Some (Errorf ''loadbalancer has gone into ERROR state'')),
                 reqs @ replicate (Suc k) (LoadBalancersGetCall lbid), delays k pollerBackoff))
       \<and> (k = 21 \<and> inProgress (fetchOutcome cloud reqs lbid k) \<longrightarrow>
            snd (fst (waitLoadbalancerActiveProvisioningStatus cloud reqs lbid))
              = Some (Errorf ''loadbalancer failed to go into ACTIVE provisioning status within allotted time'')
            \<and> snd (waitLoadbalancerActiveProvisioningStatus cloud reqs lbid)
              = (reqs @ replicate 22 (LoadBalancersGetCall lbid), delays 21 pollerBackoff))
       \<and> Errorf ''loadbalancer failed to go into ACTIVE provisioning status within allotted time''
            \<noteq> Errorf ''loadbalancer has gone into ERROR state''
       \<and> (\<forall>m. Errorf ''loadbalancer failed to go into ACTIVE provisioning status within allotted time''
              \<noteq> RemoteError m)"
proof (intro conjI allI impI)
  fix m
  assume "fetchOutcome cloud reqs lbid k = Inl m"
  from wait_fetch_fails [OF assms this]
  show "snd (fst (waitLoadbalancerActiveProvisioningStatus cloud reqs lbid))
          = Some (RemoteError m)"
    and "snd (waitLoadbalancerActiveProvisioningStatus cloud reqs lbid)
          = (reqs @ replicate (Suc k) (LoadBalancersGetCall lbid), delays k pollerBackoff)"
    by auto
next
  fix lb
  assume "fetchOutcome cloud reqs lbid k = Inr lb \<and> lb_ProvisioningStatus lb = ''ACTIVE''"
  then show "waitLoadbalancerActiveProvisioningStatus cloud reqs lbid
              = ((''ACTIVE'', None),
                 reqs @ replicate (Suc k) (LoadBalancersGetCall lbid), delays k pollerBackoff)"
    using wait_active [OF assms, of lb] by (simp add: activeStatus_def)
next
  fix lb
  assume "fetchOutcome cloud reqs lbid k = Inr lb \<and> lb_ProvisioningStatus lb = ''ERROR''"
  then show "waitLoadbalancerActiveProvisioningStatus cloud reqs lbid
              = ((''ERROR'', Some (Errorf ''loadbalancer has gone into ERROR state'')),
                 reqs @ replicate (Suc k) (LoadBalancersGetCall lbid), delays k pollerBackoff)"
    using wait_error [OF assms, of lb] by (simp add: errorStatus_def)
next
  assume last: "k = 21 \<and> inProgress (fetchOutcome cloud reqs lbid k)"
  have "\<forall>j<22. inProgress (fetchOutcome cloud reqs lbid j)"
  proof (intro allI impI)
    fix j :: nat
    assume "j < 22"
    then have "j < k \<or> j = k" using last by auto
    then show "inProgress (fetchOutcome cloud reqs lbid j)" using assms(2) last by auto
  qed
  from wait_timeout [OF this]
  show "snd (fst (waitLoadbalancerActiveProvisioningStatus cloud reqs lbid))
          = Some (Errorf ''loadbalancer failed to go into ACTIVE provisioning status within allotted time'')"
    and "snd (waitLoadbalancerActiveProvisioningStatus cloud reqs lbid)
          = (reqs @ replicate 22 (LoadBalancersGetCall lbid), delays 21 pollerBackoff)"
    by auto
qed simp_all

theorem poller_terminal_status_witness:
  "waitLoadbalancerActiveProvisioningStatus
       (demoCloud []\<lparr>loadbalancers_Get := statusFeed [''PENDING_CREATE'', ''PENDING_CREATE'', ''ACTIVE'']\<rparr>)
       [] ''lb-1''
     = ((''ACTIVE'', None),
        [LoadBalancersGetCall ''lb-1'', LoadBalancersGetCall ''lb-1'', LoadBalancersGetCall ''lb-1''],
        [1000000000, 1200000000])
   \<and> waitLoadbalancerActiveProvisioningStatus
       (demoCloud []\<lparr>loadbalancers_Get := statusFeed [''PENDING_CREATE'', ''ERROR'']\<rparr>) [] ''lb-1''
     = ((''ERROR'', Some (Errorf ''loadbalancer has gone into ERROR state'')),
        [LoadBalancersGetCall ''lb-1'', LoadBalancersGetCall ''lb-1''], [1000000000])
   \<and> snd (fst (waitLoadbalancerActiveProvisioningStatus
       (demoCloud []\<lparr>loadbalancers_Get := statusFeed [''PENDING_CREATE'']\<rparr>) [] ''lb-1''))
     = Some (RemoteError ''connection reset'')
   \<and> snd (fst (waitLoadbalancerActiveProvisioningStatus
       (demoCloud []\<lparr>loadbalancers_Get := statusFeed (replicate 22 ''PENDING_CREATE'')\<rparr>) [] ''lb-1''))
     = Some (Errorf ''loadbalancer failed to go into ACTIVE provisioning status within allotted time'')"
proof -
  have in_progress:
    "j < length statuses \<Longrightarrow> statuses ! j = ''PENDING_CREATE'' \<Longrightarrow>
       inProgress (fetchOutcome (demoCloud []\<lparr>loadbalancers_Get := statusFeed statuses\<rparr>) []
         ''lb-1'' j)" for j statuses
    by (simp add: fetchOutcome_statusFeed inProgress_def activeStatus_def errorStatus_def)
  have p2: "\<forall>j<2. inProgress (fetchOutcome
      (demoCloud []\<lparr>loadbalancers_Get := statusFeed [''PENDING_CREATE'', ''PENDING_CREATE'', ''ACTIVE'']\<rparr>)
      [] ''lb-1'' j)"
    using in_progress [of _ "[''PENDING_CREATE'', ''PENDING_CREATE'', ''ACTIVE'']"]
    by (auto simp: less_Suc_eq numeral_2_eq_2)
  have p1: "\<forall>j<1. inProgress (fetchOutcome
      (demoCloud []\<lparr>loadbalancers_Get := statusFeed [''PENDING_CREATE'', ''ERROR'']\<rparr>) [] ''lb-1'' j)"
    using in_progress [of 0 "[''PENDING_CREATE'', ''ERROR'']"] by simp
  have p1': "\<forall>j<1. inProgress (fetchOutcome
      (demoCloud []\<lparr>loadbalancers_Get := statusFeed [''PENDING_CREATE'']\<rparr>) [] ''lb-1'' j)"
    using in_progress [of 0 "[''PENDING_CREATE'']"] by simp
  have p21: "\<forall>j<21. inProgress (fetchOutcome
      (demoCloud []\<lparr>loadbalancers_Get := statusFeed (replicate 22 ''PENDING_CREATE'')\<rparr>) [] ''lb-1'' j)"
    using in_progress [of _ "replicate 22 ''PENDING_CREATE''"] by simp
  have l21: "inProgress (fetchOutcome
      (demoCloud []\<lparr>loadbalancers_Get := statusFeed (replicate 22 ''PENDING_CREATE'')\<rparr>) [] ''lb-1'' 21)"
    using in_progress [of 21 "replicate 22 ''PENDING_CREATE''"] by simp
  have k2: "(2::nat) < 22" and k1: "(1::nat) < 22" and k21: "(21::nat) < 22" by simp_all
  show ?thesis
    using poller_terminal_status [OF k2 p2] poller_terminal_status [OF k1 p1]
      poller_terminal_status [OF k1 p1'] poller_terminal_status [OF k21 p21] l21
    by (simp add: fetchOutcome_statusFeed demoRemote_def first_delays numeral_3_eq_3
          numeral_2_eq_2)
qed

text \<open>
  Claim C9. The schedule starts at one second, multiplies by 1.2 and has 22 steps. A
  poller that never sees a terminal status sleeps 21 times, 225.03 seconds in total,
  which is less than five minutes; even 22 delays of the schedule sum to less than five
  minutes.
\<close>
theorem poller_total_wait:
  assumes "\<forall>j<22. inProgress (fetchOutcome cloud reqs lbid j)"
  shows "loadbalancerActiveInitDelay = 1 * Second
       \<and> loadbalancerActiveFactor = 12 / 10
       \<and> loadbalancerActiveSteps = 22
       \<and> sum_list (snd (snd (waitLoadbalancerActiveProvisioningStatus cloud reqs lbid)))
           = 225025599499
       \<and> sum_list (snd (snd (waitLoadbalancerActiveProvisioningStatus cloud reqs lbid)))
           < 5 * 60 * Second
       \<and> sum_list (delays 22 pollerBackoff) < 5 * 60 * Second"
proof -
  from wait_timeout [OF assms]
  have "snd (snd (waitLoadbalancerActiveProvisioningStatus cloud reqs lbid))
          = delays 21 pollerBackoff"
    by auto
  then show ?thesis
    by (simp add: delays_22 delays_21 Second_def loadbalancerActiveInitDelay_def
          loadbalancerActiveFactor_def loadbalancerActiveSteps_def)
qed

theorem poller_total_wait_witness:
  "sum_list (snd (snd (waitLoadbalancerActiveProvisioningStatus
       (demoCloud []\<lparr>loadbalancers_Get := statusFeed (replicate 22 ''PENDING_CREATE'')\<rparr>)
       [] ''lb-1''))) = 225025599499"
proof -
  have "\<forall>j<22. inProgress (fetchOutcome
      (demoCloud []\<lparr>loadbalancers_Get := statusFeed (replicate 22 ''PENDING_CREATE'')\<rparr>) [] ''lb-1'' j)"
    by (simp add: fetchOutcome_statusFeed inProgress_def activeStatus_def errorStatus_def)
  from poller_total_wait [OF this] show ?thesis by simp
qed

end
